theory Spec2Isabelle
  imports Complex_Main
begin

section \<open>The notebook's constants\<close>

text \<open>
  The constants cell of \<^verbatim>\<open>experiment1.ipynb\<close>. The boundaries are pairs of Python ints,
  the life expectancy of the virus is a float (hours). No function of the notebook reads
  \<open>VIRUS_LIFE_EXPECTANCY\<close> after this cell.
\<close>

definition X_BOUNDARY :: "int \<times> int" where
  "X_BOUNDARY = (0, 300000)"

definition Y_BOUNDARY :: "int \<times> int" where
  "Y_BOUNDARY = (0, 800000)"

definition VIRUS_LIFE_EXPECTANCY :: real where
  "VIRUS_LIFE_EXPECTANCY = 4.0"

section \<open>Data model\<close>

text \<open>
  The three classes are plain attribute holders. Python floats are idealised as reals
  (with a separate not-a-number value where the library produces one, see \<open>pyfloat\<close>),
  Python ints are unbounded, and an attribute whose default is \<^verbatim>\<open>None\<close> is an option.

  A record is an object as a method sees it during one call: the values its attributes
  have at that time. That is all the constructors' results and the reading methods need.
  The identity of \<^verbatim>\<open>Location\<close> objects and assignment to their attributes, which a
  record cannot express, are modelled by a heap of objects further down.
\<close>

record Location =
  x :: real
  y :: real

record Individual =
  location :: Location
  age :: int
  is_infected :: bool
  infection_date :: "int option"
  has_symptom :: bool
  symptom_date :: "int option"
  is_dead :: bool
  death_date :: "int option"
  vulnerability :: real
  mobility :: real
  immunity :: real
  infection_radius :: real

record Population =
  population_location :: Location
  population_size :: int
  individuals_list :: "Individual list"
  individuals_array :: "real list list option"

text \<open>
  Exceptions are values. The only exception the modelled methods can raise on well-typed
  arguments is \<^verbatim>\<open>NameError\<close>, carrying the name that is not bound.
\<close>

datatype error = NameError string

text \<open>
  \<^verbatim>\<open>Location.__init__\<close> stores its two arguments; it has no check and no raise.
\<close>

definition Location_init :: "real \<Rightarrow> real \<Rightarrow> Location" where
  "Location_init x0 y0 = \<lparr>x = x0, y = y0\<rparr>"

text \<open>
  \<^verbatim>\<open>Individual.__init__\<close> stores its twelve arguments, in the order of the signature.
  The body consists of assignments only: no argument is inspected and nothing is raised.
  The result is a sum so that a failing construction could be told from a returning one;
  no branch of the source produces \<open>Inl\<close>.
\<close>

definition Individual_init ::
  "Location \<Rightarrow> int \<Rightarrow> bool \<Rightarrow> int option \<Rightarrow> bool \<Rightarrow> int option \<Rightarrow> bool \<Rightarrow> int option
     \<Rightarrow> real \<Rightarrow> real \<Rightarrow> real \<Rightarrow> real \<Rightarrow> error + Individual" where
  "Individual_init location0 age0 is_infected0 infection_date0 has_symptom0 symptom_date0
       is_dead0 death_date0 vulnerability0 mobility0 immunity0 infection_radius0 =
     Inr \<lparr>location = location0, age = age0, is_infected = is_infected0,
          infection_date = infection_date0, has_symptom = has_symptom0,
          symptom_date = symptom_date0, is_dead = is_dead0, death_date = death_date0,
          vulnerability = vulnerability0, mobility = mobility0, immunity = immunity0,
          infection_radius = infection_radius0\<rparr>"

text \<open>
  \<^verbatim>\<open>Population.__init__\<close> stores its three arguments and sets \<^verbatim>\<open>individuals_array\<close>
  to \<^verbatim>\<open>None\<close>.
\<close>

definition Population_init :: "Location \<Rightarrow> int \<Rightarrow> Individual list \<Rightarrow> Population" where
  "Population_init population_location0 population_size0 individuals =
     \<lparr>population_location = population_location0, population_size = population_size0,
      individuals_list = individuals, individuals_array = None\<rparr>"

section \<open>The aggregate counts of a population\<close>

text \<open>
  Each of the three methods sets a local counter to 0, walks \<^verbatim>\<open>self.individuals_list\<close>
  and adds the boolean attribute of every element to the counter (in Python
  \<^verbatim>\<open>n + True\<close> is \<^verbatim>\<open>n + 1\<close>). The list iterator reads the element at the next index
  of the list object until the index reaches its length, so the loop is written over the
  index and reads the list from the object at every round. The object \<open>self\<close> is threaded
  through and returned with the count, which makes the effect of a call on the population
  a part of its result.
\<close>

function infected_count_loop :: "Population \<Rightarrow> nat \<Rightarrow> int \<Rightarrow> int \<times> Population" where
  "infected_count_loop self i infected_count =
     (if i < length (individuals_list self)
      then infected_count_loop self (Suc i)
             (infected_count + of_bool (is_infected (individuals_list self ! i)))
      else (infected_count, self))"
  by pat_completeness auto
termination
  by (relation "measure (\<lambda>(self, i, c). length (individuals_list self) - i)") auto

definition get_infected_count :: "Population \<Rightarrow> int \<times> Population" where
  "get_infected_count self = infected_count_loop self 0 0"

function has_symptom_count_loop :: "Population \<Rightarrow> nat \<Rightarrow> int \<Rightarrow> int \<times> Population" where
  "has_symptom_count_loop self i has_symptom_count =
     (if i < length (individuals_list self)
      then has_symptom_count_loop self (Suc i)
             (has_symptom_count + of_bool (has_symptom (individuals_list self ! i)))
      else (has_symptom_count, self))"
  by pat_completeness auto
termination
  by (relation "measure (\<lambda>(self, i, c). length (individuals_list self) - i)") auto

definition get_has_symptom_count :: "Population \<Rightarrow> int \<times> Population" where
  "get_has_symptom_count self = has_symptom_count_loop self 0 0"

function death_count_loop :: "Population \<Rightarrow> nat \<Rightarrow> int \<Rightarrow> int \<times> Population" where
  "death_count_loop self i death_count =
     (if i < length (individuals_list self)
      then death_count_loop self (Suc i)
             (death_count + of_bool (is_dead (individuals_list self ! i)))
      else (death_count, self))"
  by pat_completeness auto
termination
  by (relation "measure (\<lambda>(self, i, c). length (individuals_list self) - i)") auto

definition get_death_count :: "Population \<Rightarrow> int \<times> Population" where
  "get_death_count self = death_count_loop self 0 0"

section \<open>The infection pressure of an individual\<close>

text \<open>
  A float as the library returns it: a real number, or not-a-number. This is exact real
  arithmetic, not the arithmetic of doubles: rounding, overflow to an infinity and
  underflow to zero are left out, and so is the \<^verbatim>\<open>OverflowError\<close> of converting an int
  beyond the range of a double. The values of \<open>norm_pdf\<close>, \<open>float_times\<close> and
  \<open>pressure_of_distance\<close> below are therefore those of the code up to rounding where
  every intermediate result is inside the normal range of a double, and no more than that:
  for an \<open>infection_radius\<close> of \<open>1e-310\<close> the code yields an infinity at distance 0, and
  for a radius of 2 it yields \<open>0.0\<close> at distance 1000, where the real-valued model gives a
  positive number.
\<close>

datatype pyfloat = Finite real | NaN

definition float_times :: "real \<Rightarrow> pyfloat \<Rightarrow> pyfloat" where
  "float_times a v = (case v of Finite b \<Rightarrow> Finite (a * b) | NaN \<Rightarrow> NaN)"

text \<open>
  \<^verbatim>\<open>scipy.stats.norm.pdf(x=x0, scale=scale)\<close> with the default \<^verbatim>\<open>loc=0\<close>, a library
  function outside the repository, as its documentation defines it: the standard normal
  density at \<open>x0 / scale\<close>, divided by \<open>scale\<close>; for a scale that is not positive the
  library yields nan instead of raising.
\<close>

definition norm_pdf :: "real \<Rightarrow> real \<Rightarrow> pyfloat" where
  "norm_pdf x0 scale =
     (if 0 < scale then Finite (exp (- (x0 / scale)\<^sup>2 / 2) / sqrt (2 * pi) / scale)
      else NaN)"

text \<open>
  The bodies of \<^verbatim>\<open>cal_distance\<close> and \<^verbatim>\<open>get_infection_pressure\<close> use names that are
  neither parameters nor locals: \<^verbatim>\<open>sqrt\<close> and \<^verbatim>\<open>self\<close> in the former (its only
  parameter is \<^verbatim>\<open>location\<close>), \<^verbatim>\<open>cal_distance\<close> in the latter. Python resolves such a
  name in the module's namespace (and then among the builtins, which hold none of the
  three) when the line runs, and raises \<^verbatim>\<open>NameError\<close> when the name is not bound
  there; a function defined in a class body is an attribute of the class, not a name of
  the module. The module namespace is therefore an argument of the
  model: for each of the three names, what it is bound to, if anything.
\<close>

record Module_scope =
  cal_distance_global :: "(Location \<Rightarrow> error + real) option"
  sqrt_global :: "(real \<Rightarrow> real) option"
  self_global :: "Location option"

text \<open>
  The namespace of the notebook after all its cells have run. It binds
  \<^verbatim>\<open>np\<close>, \<^verbatim>\<open>pd\<close>, \<^verbatim>\<open>typing\<close>, \<^verbatim>\<open>norm\<close>, the five constants, \<^verbatim>\<open>city_population\<close>,
  \<^verbatim>\<open>population_distribution\<close>, \<^verbatim>\<open>age_groups\<close>, \<^verbatim>\<open>age_distribution\<close>, the three
  classes and \<^verbatim>\<open>x\<close>; none of \<^verbatim>\<open>cal_distance\<close>, \<^verbatim>\<open>sqrt\<close> and \<^verbatim>\<open>self\<close>.
\<close>

definition notebook_scope :: Module_scope where
  "notebook_scope = \<lparr>cal_distance_global = None, sqrt_global = None, self_global = None\<rparr>"

text \<open>
  \<^verbatim>\<open>Individual.cal_distance\<close>: a function of the one parameter \<^verbatim>\<open>location\<close>. The call
  \<^verbatim>\<open>sqrt(...)\<close> first loads \<^verbatim>\<open>sqrt\<close>, then evaluates the argument, which loads
  \<^verbatim>\<open>self\<close>. No line of the notebook calls this function.
\<close>

definition cal_distance :: "Module_scope \<Rightarrow> Location \<Rightarrow> error + real" where
  "cal_distance scope loc =
     (case sqrt_global scope of
        None \<Rightarrow> Inl (NameError ''sqrt'')
      | Some sqrt_fn \<Rightarrow>
          (case self_global scope of
             None \<Rightarrow> Inl (NameError ''self'')
           | Some s \<Rightarrow> Inr (sqrt_fn ((x s - x loc)\<^sup>2 + (y s - y loc)\<^sup>2))))"

text \<open>
  The value of the return statement of \<^verbatim>\<open>get_infection_pressure\<close> for a distance
  \<open>mu\<close>: \<^verbatim>\<open>infectious_rate * norm.pdf(x=mu, scale=self.infection_radius*3)\<close>. It reads
  \<open>infection_radius\<close> and no other attribute of the individual.
\<close>

definition pressure_of_distance :: "Individual \<Rightarrow> real \<Rightarrow> real \<Rightarrow> pyfloat" where
  "pressure_of_distance self mu infectious_rate =
     float_times infectious_rate (norm_pdf mu (infection_radius self * 3))"

text \<open>
  \<^verbatim>\<open>Individual.get_infection_pressure\<close>. Its first line calls the bare name
  \<^verbatim>\<open>cal_distance\<close> with the query location; the method of the same name is not in reach
  of a bare name, so this is a lookup in the module namespace. An exception of the callee
  passes through.
\<close>

definition get_infection_pressure_in ::
  "Module_scope \<Rightarrow> Individual \<Rightarrow> Location \<Rightarrow> real \<Rightarrow> error + pyfloat" where
  "get_infection_pressure_in scope self loc infectious_rate =
     (case cal_distance_global scope of
        None \<Rightarrow> Inl (NameError ''cal_distance'')
      | Some f \<Rightarrow>
          (case f loc of
             Inl e \<Rightarrow> Inl e
           | Inr mu \<Rightarrow> Inr (pressure_of_distance self mu infectious_rate)))"

text \<open>The method as the notebook runs it.\<close>

definition get_infection_pressure :: "Individual \<Rightarrow> Location \<Rightarrow> real \<Rightarrow> error + pyfloat" where
  "get_infection_pressure = get_infection_pressure_in notebook_scope"

text \<open>
  The world-bounds invariant in the words of the specification, with \<open>X_MAX\<close> and
  \<open>Y_MAX\<close> read as the upper ends of \<open>X_BOUNDARY\<close> and \<open>Y_BOUNDARY\<close>. Nothing in the
  notebook computes it.
\<close>

definition world_bounds_invariant :: "Location \<Rightarrow> bool" where
  "world_bounds_invariant loc =
     (0 \<le> x loc \<and> x loc \<le> of_int (snd X_BOUNDARY)
      \<and> 0 \<le> y loc \<and> y loc \<le> of_int (snd Y_BOUNDARY))"

section \<open>Locations as objects\<close>

text \<open>
  A \<^verbatim>\<open>Location\<close> is an ordinary Python object: it is reached through a reference, its
  attributes live in a dictionary of its own, and the class defines neither
  \<^verbatim>\<open>__slots__\<close> nor \<^verbatim>\<open>__setattr__\<close> nor a property, so the statement
  \<^verbatim>\<open>obj.name = v\<close> binds the attribute for whoever holds the reference. The heap is
  the list of the attribute dictionaries of the \<^verbatim>\<open>Location\<close> objects created so far;
  a reference is a position in it.
\<close>

type_synonym ref = nat

type_synonym Location_object = "string \<rightharpoonup> real"

type_synonym Location_heap = "Location_object list"

text \<open>
  The statement \<^verbatim>\<open>obj.name = v\<close> on a \<^verbatim>\<open>Location\<close>, and the expression
  \<^verbatim>\<open>obj.name\<close>, where \<open>None\<close> stands for the \<^verbatim>\<open>AttributeError\<close> of an attribute that
  is not bound. References come from object creation only, so a position beyond the heap
  does not occur; the model leaves the heap as it is there and reads nothing.
\<close>

definition store_attr :: "Location_heap \<Rightarrow> ref \<Rightarrow> string \<Rightarrow> real \<Rightarrow> Location_heap" where
  "store_attr h a name v = (if a < length h then h[a := (h ! a)(name \<mapsto> v)] else h)"

definition load_attr :: "Location_heap \<Rightarrow> ref \<Rightarrow> string \<Rightarrow> real option" where
  "load_attr h a name = (if a < length h then (h ! a) name else None)"

text \<open>Both coordinates of an object, read as \<^verbatim>\<open>obj.x\<close> and \<^verbatim>\<open>obj.y\<close>.\<close>

definition coordinates :: "Location_heap \<Rightarrow> ref \<Rightarrow> Location option" where
  "coordinates h a =
     (case load_attr h a ''x'' of
        None \<Rightarrow> None
      | Some x0 \<Rightarrow>
          (case load_attr h a ''y'' of
             None \<Rightarrow> None
           | Some y0 \<Rightarrow> Some \<lparr>x = x0, y = y0\<rparr>))"

text \<open>
  \<^verbatim>\<open>Location.__init__\<close> on the heap: the two assignments \<^verbatim>\<open>self.x = x\<close> and
  \<^verbatim>\<open>self.y = y\<close>, in this order. The call \<^verbatim>\<open>Location(x, y)\<close> creates an object with
  no attribute, runs \<^verbatim>\<open>__init__\<close> on it and returns its reference.
\<close>

definition Location_object_init ::
  "Location_heap \<Rightarrow> ref \<Rightarrow> real \<Rightarrow> real \<Rightarrow> Location_heap" where
  "Location_object_init h self x0 y0 = store_attr (store_attr h self ''x'' x0) self ''y'' y0"

definition Location_new :: "Location_heap \<Rightarrow> real \<Rightarrow> real \<Rightarrow> ref \<times> Location_heap" where
  "Location_new h x0 y0 =
     (length h, Location_object_init (h @ [Map.empty]) (length h) x0 y0)"

text \<open>
  The one call of \<^verbatim>\<open>Location\<close> in the notebook is the default value
  \<^verbatim>\<open>location: Location=Location(0,0)\<close> in the signature of \<^verbatim>\<open>Individual.__init__\<close>.
  Python evaluates a default value once, when the \<^verbatim>\<open>def\<close> statement runs, so the
  class cell leaves a heap with this single object, and the parameter \<^verbatim>\<open>location\<close> of
  every later call of \<^verbatim>\<open>Individual\<close> is either the reference the caller passes or the
  reference of that same object.
\<close>

definition notebook_heap :: "ref \<times> Location_heap" where
  "notebook_heap = Location_new [] 0 0"

definition location_parameter :: "ref option \<Rightarrow> ref" where
  "location_parameter passed =
     (case passed of None \<Rightarrow> fst notebook_heap | Some a \<Rightarrow> a)"

section \<open>Results about the counts\<close>

text \<open>
  The simplification rules of the loops are unconditional equations of each loop in terms
  of itself, so they are taken out of the simplifier and the loops are handled by
  computation induction.
\<close>

declare infected_count_loop.simps [simp del]
declare has_symptom_count_loop.simps [simp del]
declare death_count_loop.simps [simp del]

lemma infected_count_loop_eq:
  "infected_count_loop self i c =
     (c + int (length (filter is_infected (drop i (individuals_list self)))), self)"
proof (induction self i c rule: infected_count_loop.induct)
  case (1 self i c)
  show ?case
  proof (cases "i < length (individuals_list self)")
    case True
    have "drop i (individuals_list self) =
            individuals_list self ! i # drop (Suc i) (individuals_list self)"
      using True by (simp add: Cons_nth_drop_Suc)
    with True "1.IH" show ?thesis
      by (subst infected_count_loop.simps) simp
  next
    case False
    then show ?thesis
      by (subst infected_count_loop.simps) simp
  qed
qed

lemma has_symptom_count_loop_eq:
  "has_symptom_count_loop self i c =
     (c + int (length (filter has_symptom (drop i (individuals_list self)))), self)"
proof (induction self i c rule: has_symptom_count_loop.induct)
  case (1 self i c)
  show ?case
  proof (cases "i < length (individuals_list self)")
    case True
    have "drop i (individuals_list self) =
            individuals_list self ! i # drop (Suc i) (individuals_list self)"
      using True by (simp add: Cons_nth_drop_Suc)
    with True "1.IH" show ?thesis
      by (subst has_symptom_count_loop.simps) simp
  next
    case False
    then show ?thesis
      by (subst has_symptom_count_loop.simps) simp
  qed
qed

lemma death_count_loop_eq:
  "death_count_loop self i c =
     (c + int (length (filter is_dead (drop i (individuals_list self)))), self)"
proof (induction self i c rule: death_count_loop.induct)
  case (1 self i c)
  show ?case
  proof (cases "i < length (individuals_list self)")
    case True
    have "drop i (individuals_list self) =
            individuals_list self ! i # drop (Suc i) (individuals_list self)"
      using True by (simp add: Cons_nth_drop_Suc)
    with True "1.IH" show ?thesis
      by (subst death_count_loop.simps) simp
  next
    case False
    then show ?thesis
      by (subst death_count_loop.simps) simp
  qed
qed

text \<open>
  The loops run on a population of three individuals built by the constructors, one of
  them infected and with symptoms, none dead.
\<close>

lemma counts_of_three_individuals:
  "map fst
     [get_infected_count (Population_init (Location_init 0 0) 3
        [\<lparr>location = Location_init 0 0, age = 40, is_infected = False, infection_date = None,
          has_symptom = False, symptom_date = None, is_dead = False, death_date = None,
          vulnerability = 0.5, mobility = 0.5, immunity = 0.5, infection_radius = 2\<rparr>,
         \<lparr>location = Location_init 1 1, age = 40, is_infected = True, infection_date = Some 0,
          has_symptom = True, symptom_date = Some 1, is_dead = False, death_date = None,
          vulnerability = 0.5, mobility = 0.5, immunity = 0.5, infection_radius = 2\<rparr>,
         \<lparr>location = Location_init 2 2, age = 40, is_infected = False, infection_date = None,
          has_symptom = False, symptom_date = None, is_dead = False, death_date = None,
          vulnerability = 0.5, mobility = 0.5, immunity = 0.5, infection_radius = 2\<rparr>]),
      get_has_symptom_count (Population_init (Location_init 0 0) 1
        [\<lparr>location = Location_init 1 1, age = 40, is_infected = True, infection_date = Some 0,
          has_symptom = True, symptom_date = Some 1, is_dead = False, death_date = None,
          vulnerability = 0.5, mobility = 0.5, immunity = 0.5, infection_radius = 2\<rparr>]),
      get_death_count (Population_init (Location_init 0 0) 0 [])]
   = [1, 1, 0]"
  by (simp add: get_infected_count_def get_has_symptom_count_def get_death_count_def
      Population_init_def infected_count_loop.simps has_symptom_count_loop.simps
      death_count_loop.simps)

text \<open>
  Claim C6. For every population, \<open>get_infected_count\<close> returns the number of entries of
  \<open>individuals_list\<close> whose \<open>is_infected\<close> is true, \<open>get_has_symptom_count\<close> the number of
  entries whose \<open>has_symptom\<close> is true and \<open>get_death_count\<close> the number of entries whose
  \<open>is_dead\<close> is true: each count is computed from the collection at the call, and the
  population object holds no counter of its own.
\<close>

theorem counts_recomputed_from_individuals:
  "fst (get_infected_count self) = int (length (filter is_infected (individuals_list self)))
   \<and> fst (get_has_symptom_count self) =
       int (length (filter has_symptom (individuals_list self)))
   \<and> fst (get_death_count self) = int (length (filter is_dead (individuals_list self)))"
  by (simp add: get_infected_count_def get_has_symptom_count_def get_death_count_def
      infected_count_loop_eq has_symptom_count_loop_eq death_count_loop_eq)

text \<open>
  Claim C8. A call of \<open>get_infected_count\<close>, \<open>get_has_symptom_count\<close> or \<open>get_death_count\<close>
  leaves the population as it was: the object after the call equals the object before it,
  hence so do \<open>individuals_list\<close> with every field of every individual in it,
  \<open>population_size\<close> and \<open>population_location\<close>.
\<close>

theorem counts_leave_population_unchanged:
  "snd (get_infected_count self) = self
   \<and> snd (get_has_symptom_count self) = self
   \<and> snd (get_death_count self) = self"
  by (simp add: get_infected_count_def get_has_symptom_count_def get_death_count_def
      infected_count_loop_eq has_symptom_count_loop_eq death_count_loop_eq)

section \<open>What the return statement computes\<close>

text \<open>
  Facts about \<open>pressure_of_distance\<close>, the value of the return statement of
  \<^verbatim>\<open>get_infection_pressure\<close> once a distance \<open>mu\<close> is at hand, and about the two
  functions under a module namespace that binds the names they load. They separate what
  the arithmetic of the method does from what its name lookups do.

  These are facts of exact real arithmetic. They describe the formula the return
  statement writes down, not the doubles it would produce: with doubles the value at
  distance 0 is an infinity for a subnormal radius, the value far away underflows to
  zero, and homogeneity in the rate holds up to rounding only. The results about the
  claims below use none of these lemmas; where they mention \<open>pressure_of_distance\<close>, it
  is at radius 2, distance 0 and rate 1, inside the normal range.
\<close>

lemma pressure_of_distance_positive_radius:
  "0 < infection_radius self \<Longrightarrow>
     pressure_of_distance self mu infectious_rate =
       Finite (infectious_rate *
         (exp (- (mu / (infection_radius self * 3))\<^sup>2 / 2) / sqrt (2 * pi)
            / (infection_radius self * 3)))"
  by (simp add: pressure_of_distance_def norm_pdf_def float_times_def)

lemma pressure_of_distance_nonpositive_radius:
  "infection_radius self \<le> 0 \<Longrightarrow> pressure_of_distance self mu infectious_rate = NaN"
  by (simp add: pressure_of_distance_def norm_pdf_def float_times_def)

lemma pressure_of_distance_at_zero:
  "0 < infection_radius self \<Longrightarrow>
     pressure_of_distance self 0 infectious_rate =
       Finite (infectious_rate / (3 * infection_radius self * sqrt (2 * pi)))"
  by (simp add: pressure_of_distance_def norm_pdf_def float_times_def field_simps)

lemma pressure_of_distance_nonneg:
  assumes "0 < infection_radius self" and "0 \<le> infectious_rate"
  shows "\<exists>v. pressure_of_distance self mu infectious_rate = Finite v \<and> 0 \<le> v"
  using assms by (simp add: pressure_of_distance_positive_radius)

lemma pressure_of_distance_antimono:
  assumes "0 < infection_radius self" and "0 \<le> infectious_rate"
    and "0 \<le> d1" and "d1 \<le> d2"
    and "pressure_of_distance self d1 infectious_rate = Finite v1"
    and "pressure_of_distance self d2 infectious_rate = Finite v2"
  shows "v2 \<le> v1"
proof -
  let ?s = "infection_radius self * 3"
  have s: "0 < ?s" using assms(1) by simp
  have "d1 / ?s \<le> d2 / ?s" using s assms(4) by (simp add: divide_right_mono)
  moreover have "0 \<le> d1 / ?s" using s assms(3) by simp
  ultimately have "(d1 / ?s)\<^sup>2 \<le> (d2 / ?s)\<^sup>2" by (rule power_mono)
  then have "exp (- (d2 / ?s)\<^sup>2 / 2) \<le> exp (- (d1 / ?s)\<^sup>2 / 2)" by simp
  then have "exp (- (d2 / ?s)\<^sup>2 / 2) / sqrt (2 * pi) / ?s
               \<le> exp (- (d1 / ?s)\<^sup>2 / 2) / sqrt (2 * pi) / ?s"
    using s by (simp add: divide_right_mono)
  then have "infectious_rate * (exp (- (d2 / ?s)\<^sup>2 / 2) / sqrt (2 * pi) / ?s)
               \<le> infectious_rate * (exp (- (d1 / ?s)\<^sup>2 / 2) / sqrt (2 * pi) / ?s)"
    using assms(2) by (rule mult_left_mono)
  with assms(1,5,6) show ?thesis
    by (simp add: pressure_of_distance_positive_radius)
qed

lemma pressure_of_distance_homogeneous:
  "pressure_of_distance self mu (c * r) = float_times c (pressure_of_distance self mu r)"
  by (simp add: pressure_of_distance_def norm_pdf_def float_times_def)

lemma get_infection_pressure_in_bound:
  "cal_distance_global scope = Some f \<Longrightarrow> f loc = Inr mu \<Longrightarrow>
     get_infection_pressure_in scope self loc infectious_rate =
       Inr (pressure_of_distance self mu infectious_rate)"
  by (simp add: get_infection_pressure_in_def)

lemma cal_distance_in_notebook:
  "cal_distance notebook_scope loc = Inl (NameError ''sqrt'')"
  by (simp add: cal_distance_def notebook_scope_def)

lemma cal_distance_bound:
  "sqrt_global scope = Some sqrt \<Longrightarrow> self_global scope = Some s \<Longrightarrow>
     cal_distance scope loc = Inr (sqrt ((x s - x loc)\<^sup>2 + (y s - y loc)\<^sup>2))"
  by (simp add: cal_distance_def)

section \<open>Results about the infection pressure\<close>

text \<open>
  Claim C1 says that an infectious individual with \<open>infection_radius = 2\<close>, queried with
  \<open>infectious_rate = 1.0\<close> at a location at distance 0 from its own, makes
  \<open>get_infection_pressure\<close> return \<open>1 / (6 * sqrt (2 * pi))\<close>. In the notebook the call
  at this input raises \<^verbatim>\<open>NameError\<close> for the name \<^verbatim>\<open>cal_distance\<close> and returns
  nothing, while the return statement, had it been reached with the distance 0, yields
  the value of the claim.
\<close>

theorem scenario_pressure_raises_NameError:
  "get_infection_pressure
     \<lparr>location = Location_init 0 0, age = 40, is_infected = True, infection_date = Some 0,
      has_symptom = False, symptom_date = None, is_dead = False, death_date = None,
      vulnerability = 0.5, mobility = 0.5, immunity = 0.5, infection_radius = 2\<rparr>
     (Location_init 0 0) 1
   = Inl (NameError ''cal_distance'')
   \<and> pressure_of_distance
     \<lparr>location = Location_init 0 0, age = 40, is_infected = True, infection_date = Some 0,
      has_symptom = False, symptom_date = None, is_dead = False, death_date = None,
      vulnerability = 0.5, mobility = 0.5, immunity = 0.5, infection_radius = 2\<rparr>
     0 1
   = Finite (1 / (6 * sqrt (2 * pi)))"
  by (simp add: get_infection_pressure_def get_infection_pressure_in_def notebook_scope_def
      pressure_of_distance_def norm_pdf_def float_times_def)

text \<open>
  Claim C2 says that the value returned by \<open>get_infection_pressure\<close> is non-negative for
  every individual with a positive \<open>infection_radius\<close>, every location and every
  non-negative \<open>infectious_rate\<close>. In the notebook the method returns no value at any
  input: every call ends in the \<^verbatim>\<open>NameError\<close> for \<^verbatim>\<open>cal_distance\<close>.
\<close>

theorem get_infection_pressure_returns_no_value:
  "get_infection_pressure self loc infectious_rate = Inl (NameError ''cal_distance'')
   \<and> (\<forall>v. get_infection_pressure self loc infectious_rate \<noteq> Inr v)"
  by (simp add: get_infection_pressure_def get_infection_pressure_in_def notebook_scope_def)

text \<open>
  Claim C3 says that the value of \<open>get_infection_pressure\<close> does not increase with the
  distance of the query location. In the notebook neither of two calls for the same
  individual, at distance 0 and at distance 5, returns a value to compare: both raise
  the \<^verbatim>\<open>NameError\<close> for \<^verbatim>\<open>cal_distance\<close>.
\<close>

theorem pressure_at_two_distances_raises:
  "get_infection_pressure
     \<lparr>location = Location_init 0 0, age = 40, is_infected = True, infection_date = Some 0,
      has_symptom = False, symptom_date = None, is_dead = False, death_date = None,
      vulnerability = 0.5, mobility = 0.5, immunity = 0.5, infection_radius = 2\<rparr>
     (Location_init 0 0) 1
   = Inl (NameError ''cal_distance'')
   \<and> get_infection_pressure
     \<lparr>location = Location_init 0 0, age = 40, is_infected = True, infection_date = Some 0,
      has_symptom = False, symptom_date = None, is_dead = False, death_date = None,
      vulnerability = 0.5, mobility = 0.5, immunity = 0.5, infection_radius = 2\<rparr>
     (Location_init 3 4) 1
   = Inl (NameError ''cal_distance'')"
  by (simp add: get_infection_pressure_def get_infection_pressure_in_def notebook_scope_def)

text \<open>
  Claim C5 says that \<open>get_infection_pressure\<close>, evaluated at the individual's own
  location, returns a finite value bounded by
  \<open>infectious_rate / (3 * infection_radius * sqrt (2 * pi))\<close>. In the notebook the call
  at the individual's own location returns no value, finite or not: it raises the
  \<^verbatim>\<open>NameError\<close> for \<^verbatim>\<open>cal_distance\<close>.
\<close>

theorem pressure_at_own_location_raises:
  "get_infection_pressure self (location self) infectious_rate
   = Inl (NameError ''cal_distance'')"
  by (simp add: get_infection_pressure_def get_infection_pressure_in_def notebook_scope_def)

text \<open>
  Claim C10 says that \<open>get_infection_pressure\<close> is homogeneous in \<open>infectious_rate\<close> and
  returns exactly 0 for the rate 0. In the notebook the calls with the rates \<open>c * r\<close>,
  \<open>r\<close> and \<open>0\<close> all raise the \<^verbatim>\<open>NameError\<close> for \<^verbatim>\<open>cal_distance\<close>; in particular the
  call with the rate 0 does not return 0.
\<close>

theorem pressure_with_scaled_rate_raises:
  "get_infection_pressure self loc (c * r) = Inl (NameError ''cal_distance'')
   \<and> get_infection_pressure self loc r = Inl (NameError ''cal_distance'')
   \<and> get_infection_pressure self loc 0 \<noteq> Inr (Finite 0)"
  by (simp add: get_infection_pressure_def get_infection_pressure_in_def notebook_scope_def)

text \<open>
  Claim C4 says that the contribution computed by \<open>get_infection_pressure\<close> is zero once
  the time elapsed since \<open>infection_date\<close> reaches \<open>VIRUS_LIFE_EXPECTANCY\<close>. The method
  takes no clock. For an individual infected at step 0, so that at every step from 4 on
  the elapsed time is at least \<open>VIRUS_LIFE_EXPECTANCY\<close> (at step 10 it is \<open>10 - 0\<close>), the
  call does not yield 0, and the value of its return statement at distance 0 is not 0
  either.
\<close>

theorem pressure_not_zero_after_life_expectancy_counterexample:
  "VIRUS_LIFE_EXPECTANCY \<le> of_int (10 - 0)
   \<and> get_infection_pressure
     \<lparr>location = Location_init 0 0, age = 40, is_infected = True, infection_date = Some 0,
      has_symptom = False, symptom_date = None, is_dead = False, death_date = None,
      vulnerability = 0.5, mobility = 0.5, immunity = 0.5, infection_radius = 2\<rparr>
     (Location_init 0 0) 1
   \<noteq> Inr (Finite 0)
   \<and> pressure_of_distance
     \<lparr>location = Location_init 0 0, age = 40, is_infected = True, infection_date = Some 0,
      has_symptom = False, symptom_date = None, is_dead = False, death_date = None,
      vulnerability = 0.5, mobility = 0.5, immunity = 0.5, infection_radius = 2\<rparr>
     0 1
   \<noteq> Finite 0"
  by (simp add: get_infection_pressure_def get_infection_pressure_in_def notebook_scope_def
      pressure_of_distance_def norm_pdf_def float_times_def VIRUS_LIFE_EXPECTANCY_def)

text \<open>
  Claim C4, amended. \<open>get_infection_pressure\<close> applies no attenuation by elapsed time:
  whatever a call yields for an individual, it yields the same for that individual with
  any other \<open>infection_date\<close>, under every module namespace, in the notebook, and for
  the value of the return statement at every distance.
\<close>

theorem pressure_independent_of_infection_date:
  "get_infection_pressure_in scope (self\<lparr>infection_date := d\<rparr>) loc infectious_rate
     = get_infection_pressure_in scope self loc infectious_rate
   \<and> get_infection_pressure (self\<lparr>infection_date := d\<rparr>) loc infectious_rate
     = get_infection_pressure self loc infectious_rate
   \<and> pressure_of_distance (self\<lparr>infection_date := d\<rparr>) mu infectious_rate
     = pressure_of_distance self mu infectious_rate"
proof -
  have value_same:
    "pressure_of_distance (self\<lparr>infection_date := d\<rparr>) m infectious_rate
       = pressure_of_distance self m infectious_rate" for m
    by (simp add: pressure_of_distance_def)
  have call_same:
    "get_infection_pressure_in sc (self\<lparr>infection_date := d\<rparr>) loc infectious_rate
       = get_infection_pressure_in sc self loc infectious_rate" for sc
    by (simp add: get_infection_pressure_in_def value_same split: option.split sum.split)
  show ?thesis
    by (simp add: get_infection_pressure_def call_same value_same)
qed

section \<open>Results about the constructors\<close>

text \<open>
  Claim C7 says that creating an individual with \<open>infection_radius \<le> 0\<close> fails. The
  constructor called with the default values and \<open>infection_radius = -1\<close> returns an
  individual, whose \<open>infection_radius\<close> is \<open>-1\<close>.
\<close>

theorem Individual_init_nonpositive_radius_counterexample:
  "Individual_init (Location_init 0 0) 40 False None False None False None 0.5 0.5 0.5 (- 1)
   = Inr \<lparr>location = Location_init 0 0, age = 40, is_infected = False, infection_date = None,
      has_symptom = False, symptom_date = None, is_dead = False, death_date = None,
      vulnerability = 0.5, mobility = 0.5, immunity = 0.5, infection_radius = - 1\<rparr>"
  by (simp add: Individual_init_def)

text \<open>
  Claim C7, amended. The constructor of an individual does not validate
  \<open>infection_radius\<close>: for every value of it, positive or not, and all other arguments,
  it returns an individual and that individual carries the given \<open>infection_radius\<close>.
\<close>

theorem Individual_init_stores_any_radius:
  "\<exists>self. Individual_init location0 age0 is_infected0 infection_date0 has_symptom0
       symptom_date0 is_dead0 death_date0 vulnerability0 mobility0 immunity0 infection_radius0
     = Inr self \<and> infection_radius self = infection_radius0"
  by (simp add: Individual_init_def)

text \<open>
  The constructor on records agrees with the constructor on the heap: the object that
  \<open>Location_new\<close> returns has, when it is created, the coordinates of \<open>Location_init\<close>.
\<close>

lemma Location_new_coordinates:
  "coordinates (snd (Location_new h x0 y0)) (fst (Location_new h x0 y0))
   = Some (Location_init x0 y0)"
  by (simp add: Location_new_def Location_object_init_def store_attr_def load_attr_def
      coordinates_def Location_init_def nth_append)

text \<open>
  Claim C9 says that every location constructed by the system satisfies
  \<open>0 \<le> x \<le> X_MAX\<close> and \<open>0 \<le> y \<le> Y_MAX\<close> and that its coordinates are immutable after
  creation. The location the source constructs is the default \<^verbatim>\<open>Location(0,0)\<close>, which
  every individual created without a location refers to. It has the coordinates
  \<open>(0, 0)\<close> when it is created; after \<^verbatim>\<open>ind = Individual()\<close> and the assignment
  \<^verbatim>\<open>ind.location.x = -1\<close> the same object has the coordinates \<open>(-1, 0)\<close>, for this and
  for every other individual created without a location, and these are outside the
  bounds.
\<close>

theorem default_location_reassigned_counterexample:
  "coordinates (snd notebook_heap) (location_parameter None) = Some \<lparr>x = 0, y = 0\<rparr>
   \<and> coordinates
        (store_attr (snd notebook_heap) (location_parameter None) ''x'' (- 1))
        (location_parameter None)
      = Some \<lparr>x = - 1, y = 0\<rparr>
   \<and> \<not> world_bounds_invariant \<lparr>x = - 1, y = 0\<rparr>"
  by (simp add: notebook_heap_def location_parameter_def Location_new_def
      Location_object_init_def store_attr_def load_attr_def coordinates_def
      world_bounds_invariant_def)

text \<open>
  Claim C9, amended. Every location constructed by the system satisfies the world-bounds
  invariant when it is created: the source constructs exactly one, the default
  \<^verbatim>\<open>Location(0,0)\<close>, and \<open>(0, 0)\<close> is inside the bounds. Constructing a further
  location leaves every existing location as it is. The coordinates are not immutable
  after creation: an assignment to an attribute of an existing location binds it to the
  assigned value, whatever that value is.
\<close>

theorem Location_in_bounds_when_created_and_assignable:
  "map (coordinates (snd notebook_heap)) [0..<length (snd notebook_heap)]
     = [Some \<lparr>x = 0, y = 0\<rparr>]
   \<and> world_bounds_invariant \<lparr>x = 0, y = 0\<rparr>
   \<and> take (length h) (snd (Location_new h x0 y0)) = h
   \<and> load_attr (store_attr h a name v) a name = (if a < length h then Some v else None)"
proof -
  have created:
    "map (coordinates (snd notebook_heap)) [0..<length (snd notebook_heap)]
       = [Some \<lparr>x = 0, y = 0\<rparr>]"
    by (simp add: notebook_heap_def Location_new_def Location_object_init_def
        store_attr_def load_attr_def coordinates_def)
  have inside: "world_bounds_invariant \<lparr>x = 0, y = 0\<rparr>"
    by (simp add: world_bounds_invariant_def X_BOUNDARY_def Y_BOUNDARY_def)
  have others: "take (length h) (snd (Location_new h x0 y0)) = h"
    by (simp add: Location_new_def Location_object_init_def store_attr_def)
  have assigned:
    "load_attr (store_attr h a name v) a name = (if a < length h then Some v else None)"
    by (simp add: store_attr_def load_attr_def)
  from created inside others assigned show ?thesis
    by simp
qed

end
